theory Spec2Isabelle
  imports Main
begin

section \<open>The jail\_fstab module: data\<close>

text \<open>
  The model follows \<^verbatim>\<open>plugins/modules/jail_fstab.py\<close>. The middleware client handle
  \<^verbatim>\<open>mw\<close> is an opaque collaborator: every \<^verbatim>\<open>mw.call\<close> either returns a decoded JSON
  value or raises. The model starts once the handle and the module parameters exist.
\<close>

text \<open>A field of a decoded fstab entry: JSON strings and JSON integers.\<close>

datatype jval = JStr string | JInt int

text \<open>
  One value \<^verbatim>\<open>v\<close> of the dictionary returned by \<^verbatim>\<open>jail.fstab ... LIST\<close>:
  \<^verbatim>\<open>v['type']\<close> and the list \<^verbatim>\<open>v['entry']\<close>.
\<close>

record fsentry =
  ftype :: string
  fentry :: "jval list"

text \<open>
  The dictionary itself, as the sequence \<^verbatim>\<open>fstab_info.items()\<close> iterates it: keys in the
  order the middleware returned them.
\<close>

type_synonym fstab_info = "(int \<times> fsentry) list"

text \<open>One element of the \<^verbatim>\<open>fstab\<close> parameter, with the defaults of the argument spec filled in.\<close>

record mountspec =
  src :: string
  mount :: string
  fstype :: string
  options :: string
  dump :: int
  fsck_pass :: int

text \<open>\<^verbatim>\<open>module.params\<close>.\<close>

record params =
  jail :: string
  fstab :: "mountspec list"
  append_flag :: bool

text \<open>What a middleware call does: it raises (with the exception's text) or it returns.\<close>

datatype 'a reply = Raises string | Returns 'a

text \<open>
  The collaborator. \<open>iocroot_reply mw n\<close> is what the call \<^verbatim>\<open>jail.get_iocroot\<close> does when
  \<open>n\<close> such calls were made before it; \<open>fstab_reply mw j\<close> is what
  \<^verbatim>\<open>jail.fstab j {"action": "LIST"}\<close> does.
\<close>

record middleware =
  iocroot_reply :: "nat \<Rightarrow> string reply"
  fstab_reply :: "string \<Rightarrow> fstab_info reply"

datatype action = LIST | ADD | REPLACE | REMOVE

datatype mwcall = Jail_get_iocroot | Jail_fstab string action

text \<open>
  The state outside \<^verbatim>\<open>main\<close>: the module-level global \<^verbatim>\<open>iocroot\<close> and the middleware
  calls issued so far, oldest first.
\<close>

record world =
  iocroot :: "string option"
  calls :: "mwcall list"

datatype error = IndexError

text \<open>
  The dictionary \<^verbatim>\<open>result\<close>. The keys \<^verbatim>\<open>iocroot\<close> and \<^verbatim>\<open>fstab\<close> are absent until lines 156
  and 170 store them; both are stored before \<^verbatim>\<open>exit_json\<close> reads the dictionary.
\<close>

record result =
  changed :: bool
  msg :: string
  res_iocroot :: "string option"
  res_fstab :: fstab_info

text \<open>An element of the list \<^verbatim>\<open>changes\<close>, of the form the comment at lines 177-181 gives.\<close>

datatype change_action = Add | Remove | Replace

record change =
  c_action :: change_action
  c_entry :: mountspec

text \<open>
  How a run ends: \<^verbatim>\<open>module.exit_json(**result)\<close>, \<^verbatim>\<open>module.fail_json(msg=...)\<close>, or an
  exception nobody catches.
\<close>

datatype outcome = Exit_json result | Fail_json string | Uncaught error

section \<open>The jail\_fstab module: operations\<close>

definition nl :: string where
  "nl = [CHR 0x0A]"

definition startswith :: "string \<Rightarrow> string \<Rightarrow> bool" where
  "startswith p s = (take (length p) s = p)"

text \<open>The number of \<^verbatim>\<open>jail.get_iocroot\<close> calls in a log.\<close>

definition lookups :: "mwcall list \<Rightarrow> nat" where
  "lookups cs = length (filter (\<lambda>c. c = Jail_get_iocroot) cs)"

text \<open>Lines 112-125.\<close>

definition get_iocroot :: "middleware \<Rightarrow> world \<Rightarrow> string option \<times> world" where
  "get_iocroot mw w =
     (case iocroot w of
        Some r \<Rightarrow> (Some r, w)
      | None \<Rightarrow>
          (case iocroot_reply mw (lookups (calls w)) of
             Raises e \<Rightarrow> (None, w\<lparr>calls := calls w @ [Jail_get_iocroot]\<rparr>)
           | Returns r \<Rightarrow>
               (Some r, w\<lparr>iocroot := Some r, calls := calls w @ [Jail_get_iocroot]\<rparr>)))"

text \<open>How an f-string prints the value \<^verbatim>\<open>get_iocroot()\<close> returned.\<close>

fun format_root :: "string option \<Rightarrow> string" where
  "format_root None = ''None''"
| "format_root (Some r) = r"

text \<open>Lines 188-191: the value of \<^verbatim>\<open>mount_full\<close>.\<close>

definition mount_full :: "middleware \<Rightarrow> string \<Rightarrow> mountspec \<Rightarrow> world \<Rightarrow> string \<times> world" where
  "mount_full mw jl fs w =
     (if \<not> startswith ''/'' (mount fs)
      then (case get_iocroot mw w of
              (r, w') \<Rightarrow> (format_root r @ ''/jails/'' @ jl @ ''/root/'' @ mount fs, w'))
      else (mount fs, w))"

text \<open>
  Lines 203-205: \<^verbatim>\<open>next\<close> over the generator, with \<^verbatim>\<open>None\<close> as the default. Reading
  \<^verbatim>\<open>v['entry'][1]\<close> raises when the list has fewer than two elements.
\<close>

fun find_entry :: "fstab_info \<Rightarrow> string \<Rightarrow> error + jval list option" where
  "find_entry [] m = Inr None"
| "find_entry ((k, v) # rest) m =
     (if length (fentry v) < 2 then Inl IndexError
      else if fentry v ! 1 = JStr m then Inr (Some (fentry v))
      else find_entry rest m)"

text \<open>Lines 185-223: one round of the loop over \<^verbatim>\<open>fstab\<close>.\<close>

definition loop_body ::
  "middleware \<Rightarrow> string \<Rightarrow> fstab_info \<Rightarrow> mountspec \<Rightarrow> result \<Rightarrow> world \<Rightarrow> (error + result) \<times> world"
where
  "loop_body mw jl info fs res w =
     (let res1 = res\<lparr>msg := msg res @ ''Checking '' @ mount fs @ ''.'' @ nl\<rparr> in
      case mount_full mw jl fs w of
        (mf, w1) \<Rightarrow>
          (let res2 = res1\<lparr>msg := msg res1 @ ''  mount_full: '' @ mf @ nl\<rparr> in
           case find_entry info mf of
             Inl e \<Rightarrow> (Inl e, w1)
           | Inr None \<Rightarrow>
               (Inr (res2\<lparr>msg := msg res2 @ ''No such entry. Need to add it.'' @ nl\<rparr>), w1)
           | Inr (Some entry) \<Rightarrow>
               (Inr (res2\<lparr>msg := msg res2 @ ''This entry exists. Need to check it.'' @ nl\<rparr>),
                w1)))"

text \<open>Line 184: the loop. An exception ends it.\<close>

fun for_fstab ::
  "middleware \<Rightarrow> string \<Rightarrow> fstab_info \<Rightarrow> mountspec list \<Rightarrow> result \<Rightarrow> world \<Rightarrow> (error + result) \<times> world"
where
  "for_fstab mw jl info [] res w = (Inr res, w)"
| "for_fstab mw jl info (fs # rest) res w =
     (case loop_body mw jl info fs res w of
        (Inl e, w') \<Rightarrow> (Inl e, w')
      | (Inr res', w') \<Rightarrow> for_fstab mw jl info rest res' w')"

text \<open>
  Lines 144-240. The result is how the run ended, the list \<^verbatim>\<open>changes\<close> at that moment
  (empty before line 182 creates it) and the world it left.
\<close>

definition main :: "middleware \<Rightarrow> params \<Rightarrow> world \<Rightarrow> outcome \<times> change list \<times> world" where
  "main mw p w0 =
     (let result0 = \<lparr>changed = False, msg = [], res_iocroot = None, res_fstab = []\<rparr> in
      case get_iocroot mw w0 of
        (r, w1) \<Rightarrow>
          (let result1 = result0\<lparr>res_iocroot := r\<rparr>;
               w2 = w1\<lparr>calls := calls w1 @ [Jail_fstab (jail p) LIST]\<rparr>
           in case fstab_reply mw (jail p) of
                Raises e \<Rightarrow>
                  (Fail_json (''Error looking up jail '' @ jail p @ '': '' @ e), [], w2)
              | Returns listed \<Rightarrow>
                  (let info = filter (\<lambda>(k, v). ftype v = ''USER'') listed;
                       result2 = result1\<lparr>res_fstab := info\<rparr>;
                       changes = []
                   in case for_fstab mw (jail p) info (fstab p) result2 w2 of
                        (Inl e, w3) \<Rightarrow> (Uncaught e, changes, w3)
                      | (Inr result3, w3) \<Rightarrow>
                          (let result4 =
                                 (if append_flag p
                                  then result3\<lparr>msg := msg result3 @ ''Other fs-es may exist.'' @ nl\<rparr>
                                  else result3\<lparr>msg := msg result3 @ ''Ought to delete other fs-es.'' @ nl\<rparr>)
                           in (Exit_json result4, changes, w3)))))"

text \<open>The world when the process starts: line 109, and no call made yet.\<close>

definition fresh :: world where
  "fresh = \<lparr>iocroot = None, calls = []\<rparr>"

section \<open>Predicates for the statements\<close>

text \<open>The comprehension of lines 168-169, named.\<close>

abbreviation only_user :: "fstab_info \<Rightarrow> fstab_info" where
  "only_user listed \<equiv> filter (\<lambda>(k, v). ftype v = ''USER'') listed"



section \<open>Concrete inputs\<close>

definition listed_one :: fsentry where
  "listed_one = \<lparr>ftype = ''USER'',
     fentry = [JStr ''/mnt/data/my-data'', JStr ''/mnt/pool/iocage/jails/j1/root/my-data'',
               JStr ''nullfs'', JStr ''ro'', JStr ''0'', JStr ''0'']\<rparr>"

definition listed_two :: fsentry where
  "listed_two = \<lparr>ftype = ''USER'',
     fentry = [JStr ''/mnt/data/other'', JStr ''/mnt/pool/iocage/jails/j1/root/my-data'',
               JStr ''nullfs'', JStr ''rw'', JStr ''0'', JStr ''0'']\<rparr>"

definition listed_sys :: fsentry where
  "listed_sys = \<lparr>ftype = ''SYSTEM'',
     fentry = [JStr ''/mnt/data/sys'', JStr ''/mnt/pool/iocage/jails/j1/root/my-data'',
               JStr ''nullfs'', JStr ''rw'', JStr ''0'', JStr ''0'']\<rparr>"

definition spec_abs :: mountspec where
  "spec_abs = \<lparr>src = ''/mnt/data/my-data'', mount = ''/mnt/pool/iocage/jails/j1/root/my-data'',
     fstype = ''nullfs'', options = ''ro'', dump = 0, fsck_pass = 0\<rparr>"


definition listed_rel :: fsentry where
  "listed_rel = \<lparr>ftype = ''USER'',
     fentry = [JStr ''/mnt/data/more-data'', JStr ''data/more'',
               JStr ''nullfs'', JStr ''ro'', JStr ''0'', JStr ''0'']\<rparr>"

definition spec_dots :: mountspec where
  "spec_dots = \<lparr>src = ''/mnt/data/more-data'', mount = ''data/../more//x'',
     fstype = ''nullfs'', options = ''ro'', dump = 0, fsck_pass = 0\<rparr>"

definition mw_up :: "fstab_info \<Rightarrow> middleware" where
  "mw_up listed = \<lparr>iocroot_reply = (\<lambda>n. Returns ''/mnt/pool/iocage''),
                   fstab_reply = (\<lambda>j. Returns listed)\<rparr>"

definition mw_rootless :: "fstab_info \<Rightarrow> middleware" where
  "mw_rootless listed = \<lparr>iocroot_reply = (\<lambda>n. Raises ''down''),
                         fstab_reply = (\<lambda>j. Returns listed)\<rparr>"






section \<open>Auxiliary facts\<close>

lemma lookups_snoc:
  "lookups (cs @ [c]) = lookups cs + (if c = Jail_get_iocroot then 1 else 0)"
  by (simp add: lookups_def)

lemma lookups_append: "lookups (cs @ ds) = lookups cs + lookups ds"
  by (simp add: lookups_def)





lemma mount_full_relative:
  "\<not> startswith ''/'' (mount fs) \<Longrightarrow>
   mount_full mw jl fs w =
     (format_root (fst (get_iocroot mw w)) @ ''/jails/'' @ jl @ ''/root/'' @ mount fs,
      snd (get_iocroot mw w))"
  by (simp add: mount_full_def split: prod.splits)


lemma find_entry_skip:
  "list_all (\<lambda>(k, v). 2 \<le> length (fentry v) \<and> fentry v ! 1 \<noteq> JStr m) pre \<Longrightarrow>
   find_entry (pre @ rest) m = find_entry rest m"
  by (induction pre) auto












lemma find_entry_mem:
  "find_entry info m = Inr (Some e) \<Longrightarrow> \<exists>k v. (k, v) \<in> set info \<and> fentry v = e"
  by (induction info m rule: find_entry.induct) (auto split: if_splits)

lemma get_iocroot_cong:
  "iocroot_reply mw' = iocroot_reply mw \<Longrightarrow> get_iocroot mw' w = get_iocroot mw w"
  by (simp add: get_iocroot_def split: option.splits)

lemma loop_body_cong:
  "iocroot_reply mw' = iocroot_reply mw \<Longrightarrow>
   loop_body mw' jl info fs res w = loop_body mw jl info fs res w"
  by (simp add: loop_body_def mount_full_def get_iocroot_cong [of mw' mw])

lemma for_fstab_cong:
  "iocroot_reply mw' = iocroot_reply mw \<Longrightarrow>
   for_fstab mw' jl info fss res w = for_fstab mw jl info fss res w"
  by (induction fss arbitrary: res w)
     (simp_all add: loop_body_cong [of mw' mw] split: prod.splits sum.splits)

lemma main_Raises:
  "fstab_reply mw (jail p) = Raises e \<Longrightarrow>
   main mw p w =
     (Fail_json (''Error looking up jail '' @ jail p @ '': '' @ e), [],
      (snd (get_iocroot mw w))
        \<lparr>calls := calls (snd (get_iocroot mw w)) @ [Jail_fstab (jail p) LIST]\<rparr>)"
  by (simp add: main_def Let_def split: prod.splits)

lemma main_Returns:
  "fstab_reply mw (jail p) = Returns listed \<Longrightarrow>
   main mw p w =
     (case for_fstab mw (jail p) (only_user listed) (fstab p)
             \<lparr>changed = False, msg = [], res_iocroot = fst (get_iocroot mw w),
                res_fstab = only_user listed\<rparr>
             ((snd (get_iocroot mw w))
                \<lparr>calls := calls (snd (get_iocroot mw w)) @ [Jail_fstab (jail p) LIST]\<rparr>) of
        (Inl e, w3) \<Rightarrow> (Uncaught e, [], w3)
      | (Inr r3, w3) \<Rightarrow>
          (Exit_json
             (r3\<lparr>msg := msg r3 @
                     (if append_flag p then ''Other fs-es may exist.''
                      else ''Ought to delete other fs-es.'') @ nl\<rparr>),
           [], w3))"
  by (simp add: main_def Let_def split: prod.splits sum.splits)

lemma main_changes: "fst (snd (main mw p w)) = []"
  by (cases "fstab_reply mw (jail p)")
     (simp_all add: main_Raises main_Returns split: prod.splits sum.splits)











section \<open>Path resolution\<close>

text \<open>
  Claim C8. A mount that begins with \<^verbatim>\<open>/\<close> is its own \<^verbatim>\<open>mount_full\<close>, whatever the
  middleware, the cached root and the jail name are; no root lookup is made, so the world
  is left as it was.
\<close>

theorem absolute_target_unchanged:
  "startswith ''/'' (mount fs) \<Longrightarrow> mount_full mw jl fs w = (mount fs, w)"
  by (simp add: mount_full_def)

theorem absolute_target_unchanged_witness:
  "startswith ''/'' (mount spec_abs) \<and>
   mount_full (mw_rootless []) ''j1'' spec_abs fresh =
     (''/mnt/pool/iocage/jails/j1/root/my-data'', fresh)"
proof -
  have h: "startswith ''/'' (mount spec_abs)"
    by (simp add: startswith_def spec_abs_def)
  from absolute_target_unchanged [OF h, of "mw_rootless []" "''j1''" fresh]
  show ?thesis using h by (simp add: spec_abs_def)
qed

text \<open>
  Claim C9. A mount that does not begin with \<^verbatim>\<open>/\<close> resolves to the plain concatenation of
  the root that \<^verbatim>\<open>get_iocroot\<close> returned, \<^verbatim>\<open>/jails/\<close>, the jail name, \<^verbatim>\<open>/root/\<close> and the
  mount as given: nothing is normalised. The witness resolves \<^verbatim>\<open>data/../more//x\<close>.
\<close>

theorem relative_target_composed:
  "\<not> startswith ''/'' (mount fs) \<Longrightarrow> fst (get_iocroot mw w) = Some root \<Longrightarrow>
   mount_full mw jl fs w =
     (root @ ''/jails/'' @ jl @ ''/root/'' @ mount fs, snd (get_iocroot mw w))"
  by (simp add: mount_full_relative)

theorem relative_target_composed_witness:
  "\<not> startswith ''/'' (mount spec_dots) \<and>
   fst (get_iocroot (mw_up []) fresh) = Some ''/mnt/pool/iocage'' \<and>
   fst (mount_full (mw_up []) ''j1'' spec_dots fresh) =
     ''/mnt/pool/iocage/jails/j1/root/data/../more//x''"
proof -
  have h1: "\<not> startswith ''/'' (mount spec_dots)"
    by (simp add: startswith_def spec_dots_def)
  have h2: "fst (get_iocroot (mw_up []) fresh) = Some ''/mnt/pool/iocage''"
    by (simp add: get_iocroot_def mw_up_def fresh_def)
  from relative_target_composed [OF h1 h2, of "''j1''"]
  show ?thesis using h1 h2 by (simp add: spec_dots_def)
qed

section \<open>Matching\<close>

text \<open>
  Claim C10. The search returns the first listed entry, in the order the middleware
  returned them, whose stored target (field 1 of the entry) is literally equal to the
  resolved mount; entries after it are not looked at, also when they carry the same
  target. The stored target is compared as it is: in the witness an entry stored with
  the relative target \<^verbatim>\<open>data/more\<close> stands first and is passed over.
\<close>

theorem first_match_wins:
  "list_all (\<lambda>(k', v'). 2 \<le> length (fentry v') \<and> fentry v' ! 1 \<noteq> JStr m) pre \<Longrightarrow>
   2 \<le> length (fentry v) \<Longrightarrow> fentry v ! 1 = JStr m \<Longrightarrow>
   find_entry (pre @ (k, v) # post) m = Inr (Some (fentry v))"
  by (induction pre) auto

theorem first_match_wins_witness:
  "list_all (\<lambda>(k', v'). 2 \<le> length (fentry v') \<and>
       fentry v' ! 1 \<noteq> JStr ''/mnt/pool/iocage/jails/j1/root/my-data'') [(0, listed_rel)] \<and>
   2 \<le> length (fentry listed_one) \<and>
   fentry listed_one ! 1 = JStr ''/mnt/pool/iocage/jails/j1/root/my-data'' \<and>
   fentry listed_two ! 1 = JStr ''/mnt/pool/iocage/jails/j1/root/my-data'' \<and>
   find_entry ([(0, listed_rel)] @ (1, listed_one) # [(2, listed_two)])
     ''/mnt/pool/iocage/jails/j1/root/my-data'' = Inr (Some (fentry listed_one))"
proof -
  have h1: "list_all (\<lambda>(k', v'). 2 \<le> length (fentry v') \<and>
       fentry v' ! 1 \<noteq> JStr ''/mnt/pool/iocage/jails/j1/root/my-data'') [(0, listed_rel)]"
    by (simp add: listed_rel_def)
  have h2: "2 \<le> length (fentry listed_one)"
    by (simp add: listed_one_def)
  have h3: "fentry listed_one ! 1 = JStr ''/mnt/pool/iocage/jails/j1/root/my-data''"
    by (simp add: listed_one_def)
  have h4: "fentry listed_two ! 1 = JStr ''/mnt/pool/iocage/jails/j1/root/my-data''"
    by (simp add: listed_two_def)
  from first_match_wins [OF h1 h2 h3, of 1 "[(2, listed_two)]"]
  show ?thesis using h1 h2 h3 h4 by simp
qed


lemmas run_defs =
  main_def fresh_def get_iocroot_def lookups_def loop_body_def mount_full_def
  startswith_def nl_def

section \<open>The plan\<close>

text \<open>
  Claim C1 asks for one ADD for a desired mount that no listed USER entry matches. The run
  below has one such mount and an empty listing: the loop only appends
  \<^verbatim>\<open>No such entry. Need to add it.\<close> to the message, \<^verbatim>\<open>changes\<close> stays empty and the
  middleware is asked for nothing but the root and the listing.
\<close>

theorem unmatched_spec_not_added:
  "main (mw_up []) \<lparr>jail = ''j1'', fstab = [spec_abs], append_flag = False\<rparr> fresh =
     (Exit_json \<lparr>changed = False,
        msg = ''Checking /mnt/pool/iocage/jails/j1/root/my-data.'' @ nl @
              ''  mount_full: /mnt/pool/iocage/jails/j1/root/my-data'' @ nl @
              ''No such entry. Need to add it.'' @ nl @
              ''Ought to delete other fs-es.'' @ nl,
        res_iocroot = Some ''/mnt/pool/iocage'', res_fstab = []\<rparr>,
      [],
      \<lparr>iocroot = Some ''/mnt/pool/iocage'',
         calls = [Jail_get_iocroot, Jail_fstab ''j1'' LIST]\<rparr>)"
  by (simp add: run_defs mw_up_def spec_abs_def)

text \<open>
  Claim C2 asks, when \<^verbatim>\<open>append\<close> is false, for one REMOVE for each listed USER entry that no
  desired mount matches. The run below lists one USER entry and desires nothing: the
  module appends \<^verbatim>\<open>Ought to delete other fs-es.\<close> to the message, \<^verbatim>\<open>changes\<close> stays empty
  and no REMOVE call is made.
\<close>

theorem unmatched_entry_not_removed:
  "main (mw_up [(0, listed_one)]) \<lparr>jail = ''j1'', fstab = [], append_flag = False\<rparr> fresh =
     (Exit_json \<lparr>changed = False,
        msg = ''Ought to delete other fs-es.'' @ nl,
        res_iocroot = Some ''/mnt/pool/iocage'', res_fstab = [(0, listed_one)]\<rparr>,
      [],
      \<lparr>iocroot = Some ''/mnt/pool/iocage'',
         calls = [Jail_get_iocroot, Jail_fstab ''j1'' LIST]\<rparr>)"
  by (simp add: run_defs mw_up_def listed_one_def)

text \<open>
  Claim C3 asks for one REPLACE when a desired mount matches a listed USER entry on the
  target and differs from it in a field. In the run below the listed entry has the
  target of the desired mount, another source and other options: the loop appends
  \<^verbatim>\<open>This entry exists. Need to check it.\<close>, compares no field, and \<^verbatim>\<open>changes\<close> stays
  empty.
\<close>

theorem differing_entry_not_replaced:
  "main (mw_up [(0, listed_two)]) \<lparr>jail = ''j1'', fstab = [spec_abs], append_flag = False\<rparr> fresh =
     (Exit_json \<lparr>changed = False,
        msg = ''Checking /mnt/pool/iocage/jails/j1/root/my-data.'' @ nl @
              ''  mount_full: /mnt/pool/iocage/jails/j1/root/my-data'' @ nl @
              ''This entry exists. Need to check it.'' @ nl @
              ''Ought to delete other fs-es.'' @ nl,
        res_iocroot = Some ''/mnt/pool/iocage'', res_fstab = [(0, listed_two)]\<rparr>,
      [],
      \<lparr>iocroot = Some ''/mnt/pool/iocage'',
         calls = [Jail_get_iocroot, Jail_fstab ''j1'' LIST]\<rparr>)
   \<and> fentry listed_two ! 0 \<noteq> JStr (src spec_abs)
   \<and> fentry listed_two ! 3 \<noteq> JStr (options spec_abs)"
  by (simp add: run_defs mw_up_def spec_abs_def listed_two_def)



section \<open>Effects of a run\<close>




section \<open>The cached root\<close>




section \<open>SYSTEM entries\<close>

text \<open>
  Claim C7. Two listings with the same USER entries give the same run, whatever their
  other entries are: how the run ends, its message, its list \<^verbatim>\<open>changes\<close> and its calls do
  not depend on a SYSTEM entry. The list \<^verbatim>\<open>changes\<close> is empty, so no SYSTEM entry is in
  it, and an entry that the search returns is a USER entry of the listing.
\<close>

theorem system_entries_inert:
  assumes "fstab_reply mw (jail p) = Returns listed"
    and "fstab_reply mw' (jail p) = Returns listed'"
    and "iocroot_reply mw' = iocroot_reply mw"
    and "only_user listed' = only_user listed"
  shows "main mw' p w = main mw p w
         \<and> fst (snd (main mw p w)) = []
         \<and> (\<forall>m e. find_entry (only_user listed) m = Inr (Some e) \<longrightarrow>
               (\<exists>k v. (k, v) \<in> set listed \<and> ftype v = ''USER'' \<and> fentry v = e))"
proof (intro conjI allI impI)
  show "main mw' p w = main mw p w"
    by (simp only: main_Returns [OF assms(1)] main_Returns [OF assms(2)] assms(4)
        for_fstab_cong [OF assms(3)] get_iocroot_cong [OF assms(3)])
  show "fst (snd (main mw p w)) = []"
    by (rule main_changes)
next
  fix m e
  assume "find_entry (only_user listed) m = Inr (Some e)"
  then obtain k v where "(k, v) \<in> set (only_user listed)" "fentry v = e"
    using find_entry_mem by blast
  then show "\<exists>k v. (k, v) \<in> set listed \<and> ftype v = ''USER'' \<and> fentry v = e"
    by auto
qed

theorem system_entries_inert_witness:
  "fstab_reply (mw_up [(1, listed_one)]) ''j1'' = Returns [(1, listed_one)]
   \<and> fstab_reply (mw_up [(0, listed_sys), (1, listed_one)]) ''j1'' =
       Returns [(0, listed_sys), (1, listed_one)]
   \<and> iocroot_reply (mw_up [(0, listed_sys), (1, listed_one)]) = iocroot_reply (mw_up [(1, listed_one)])
   \<and> only_user [(0, listed_sys), (1, listed_one)] = only_user [(1, listed_one)]
   \<and> main (mw_up [(0, listed_sys), (1, listed_one)])
        \<lparr>jail = ''j1'', fstab = [spec_abs], append_flag = False\<rparr> fresh =
     main (mw_up [(1, listed_one)])
        \<lparr>jail = ''j1'', fstab = [spec_abs], append_flag = False\<rparr> fresh"
proof -
  let ?p = "\<lparr>jail = ''j1'', fstab = [spec_abs], append_flag = False\<rparr>"
  have h1: "fstab_reply (mw_up [(1, listed_one)]) (jail ?p) = Returns [(1, listed_one)]"
    by (simp add: mw_up_def)
  have h2: "fstab_reply (mw_up [(0, listed_sys), (1, listed_one)]) (jail ?p) =
       Returns [(0, listed_sys), (1, listed_one)]"
    by (simp add: mw_up_def)
  have h3: "iocroot_reply (mw_up [(0, listed_sys), (1, listed_one)]) =
       iocroot_reply (mw_up [(1, listed_one)])"
    by (simp add: mw_up_def)
  have h4: "only_user [(0, listed_sys), (1, listed_one)] = only_user [(1, listed_one)]"
    by (simp add: listed_sys_def listed_one_def)
  have h1': "fstab_reply (mw_up [(1, listed_one)]) ''j1'' = Returns [(1, listed_one)]"
    by (simp add: mw_up_def)
  have h2': "fstab_reply (mw_up [(0, listed_sys), (1, listed_one)]) ''j1'' =
       Returns [(0, listed_sys), (1, listed_one)]"
    by (simp add: mw_up_def)
  from system_entries_inert [OF h1 h2 h3 h4, of fresh]
  have c: "main (mw_up [(0, listed_sys), (1, listed_one)]) ?p fresh =
           main (mw_up [(1, listed_one)]) ?p fresh"
    by (rule conjunct1)
  show ?thesis
    by (intro conjI h1' h2' h3 h4 c)
qed

end
